theory Spec2Isabelle
  imports Complex_Main "HOL-Library.Multiset" "HOL-Library.Sublist"
begin

section \<open>Canteen administration: the data behind the three admin screens\<close>

text \<open>
  The admin screens (\<^verbatim>\<open>AdminInventorySection.jsx\<close>, \<^verbatim>\<open>AdminMenuSection.jsx\<close>,
  \<^verbatim>\<open>AdminOrderSection.jsx\<close>) are React components that read and write three tables of
  a hosted database: \<^verbatim>\<open>menu_items\<close>, \<^verbatim>\<open>inventory_logs\<close> and \<^verbatim>\<open>orders\<close>. The
  tables are modelled as lists of rows, a component as a record of its \<^verbatim>\<open>useState\<close>
  cells, and an event handler as a function from the component state and the database to
  the toasts it shows, the new component state and the new database.

  Identifiers are opaque and modelled as \<open>nat\<close>; \<^verbatim>\<open>created_at\<close> is a point in time,
  modelled as \<open>int\<close>. Stock quantities are JavaScript numbers that only ever hold
  integers (they come from an integer column, from \<^verbatim>\<open>parseInt\<close> or from the constant 0);
  they are modelled as \<open>int\<close>, that is, inside the range where JavaScript adds integers
  exactly.
\<close>

subsection \<open>Rows\<close>

text \<open>
  \<open>menu_item\<close> holds the four columns the inventory screen selects
  (\<^verbatim>\<open>select('id, name, stock_quantity, category')\<close>); a full row of \<^verbatim>\<open>menu_items\<close>
  extends it by the remaining columns the menu screen reads and writes.
\<close>

record menu_item =
  item_id :: nat
  name :: string
  stock_quantity :: int
  category :: string

record menu_item_row = menu_item +
  description :: string
  price :: real
  is_available :: bool
  image_url :: "string option"

text \<open>The columns of \<^verbatim>\<open>inventory_logs\<close> that the inventory screen renders.\<close>

record inventory_log =
  log_id :: nat
  menu_item_id :: nat
  change_amount :: int
  previous_stock :: int
  new_stock :: int
  reason :: string
  created_at :: int

text \<open>
  A row of the result of \<^verbatim>\<open>select('*, menu_items (name)')\<close>: the log entry itself and
  the embedded name of the menu item its \<^verbatim>\<open>menu_item_id\<close> refers to (\<open>None\<close> is the
  \<^verbatim>\<open>null\<close> the embedding yields when no such item exists).
\<close>

record log_with_name =
  entry :: inventory_log
  menu_items_name :: "string option"

record order_row =
  order_id :: nat
  status :: string

record database =
  menu_items :: "menu_item_row list"
  inventory_logs :: "inventory_log list"
  orders :: "order_row list"

text \<open>
  What the hosted backend answers, outside the control of the screens: whether each
  request comes back with an \<^verbatim>\<open>error\<close>, and the values the database itself assigns
  to a new menu item (its \<^verbatim>\<open>id\<close> and the column default of \<^verbatim>\<open>is_available\<close>).
  A request that comes back with an error has changed nothing.
\<close>

record backend =
  update_error :: bool
  items_error :: bool
  logs_error :: bool
  insert_error :: bool
  delete_error :: bool
  generated_id :: nat
  default_is_available :: bool

subsection \<open>Toasts\<close>

text \<open>
  Every call of \<^verbatim>\<open>toast({title, description, variant})\<close> in the three components, one
  constructor each:
  \<^item> \<open>Invalid_Input\<close>: 'Invalid Input', 'Please provide a reason for the adjustment'
    (the specification's \<^verbatim>\<open>MissingReason\<close>);
  \<^item> \<open>Invalid_Adjustment\<close>: 'Invalid Adjustment', 'Stock quantity cannot be negative'
    (the specification's \<^verbatim>\<open>NegativeStock\<close>);
  \<^item> \<open>Stock_Updated n\<close>: 'Stock Updated', 'Stock for n has been updated';
  \<^item> \<open>Failed_To_Update_Stock\<close>: 'Error', 'Failed to update stock';
  \<^item> \<open>Failed_To_Load_Inventory\<close>: 'Error', 'Failed to load inventory data';
  \<^item> \<open>Validation_Error\<close>: 'Validation Error' with the message of the first issue;
  \<^item> \<open>Menu_Item_Updated\<close>, \<open>Menu_Item_Added\<close>, \<open>Failed_To_Save\<close>, \<open>Item_Deleted\<close>,
    \<open>Failed_To_Delete\<close>: the toasts of the menu screen;
  \<^item> \<open>Order_Updated s\<close>, \<open>Failed_To_Update_Order\<close>: the toasts of the order screen.
\<close>

datatype toast =
    Invalid_Input
  | Invalid_Adjustment
  | Stock_Updated string
  | Failed_To_Update_Stock
  | Failed_To_Load_Inventory
  | Validation_Error
  | Menu_Item_Updated
  | Menu_Item_Added
  | Failed_To_Save
  | Item_Deleted
  | Failed_To_Delete
  | Order_Updated string
  | Failed_To_Update_Order

section \<open>The inventory screen\<close>

text \<open>The \<^verbatim>\<open>useState\<close> cells of \<^verbatim>\<open>AdminInventorySection\<close>.\<close>

record inventory_section =
  menuItems :: "menu_item list"
  inventoryLogs :: "log_with_name list"
  loading :: bool
  selectedItem :: "menu_item option"
  adjustmentAmount :: int
  adjustmentReason :: string
  isDialogOpen :: bool

subsection \<open>The two queries of fetchData\<close>

text \<open>
  \<^verbatim>\<open>from('menu_items').select('id, name, stock_quantity, category')
      .order('stock_quantity', { ascending: true })\<close>
\<close>

definition snapshot :: "menu_item_row \<Rightarrow> menu_item" where
  "snapshot r =
     \<lparr>item_id = item_id r, name = name r, stock_quantity = stock_quantity r,
      category = category r\<rparr>"

definition select_menu_items :: "database \<Rightarrow> menu_item list" where
  "select_menu_items db = sort_key stock_quantity (map snapshot (menu_items db))"

text \<open>
  \<^verbatim>\<open>from('inventory_logs').select('*, menu_items (name)')
      .order('created_at', { ascending: false }).limit(20)\<close>
  The embedded \<^verbatim>\<open>menu_items (name)\<close> follows the reference \<^verbatim>\<open>menu_item_id\<close>.
\<close>

definition embed_name :: "database \<Rightarrow> inventory_log \<Rightarrow> log_with_name" where
  "embed_name db l =
     \<lparr>entry = l,
      menu_items_name =
        map_option name (find (\<lambda>r. item_id r = menu_item_id l) (menu_items db))\<rparr>"

definition select_inventory_logs :: "database \<Rightarrow> log_with_name list" where
  "select_inventory_logs db =
     take 20 (sort_key (\<lambda>v. - created_at (entry v)) (map (embed_name db) (inventory_logs db)))"

text \<open>
  \<^verbatim>\<open>fetchData\<close>: both queries; if either comes back with an error the catch branch
  shows a toast and the lists keep their old contents; \<^verbatim>\<open>loading\<close> is cleared in the
  \<^verbatim>\<open>finally\<close> block either way. Like every handler it returns the toasts, the
  component state and the database; it sends two \<^verbatim>\<open>select\<close> requests and nothing else.
\<close>

definition fetchData ::
  "backend \<Rightarrow> database \<Rightarrow> inventory_section \<Rightarrow> toast list \<times> inventory_section \<times> database"
where
  "fetchData be db ui =
     (if items_error be \<or> logs_error be
      then ([Failed_To_Load_Inventory], ui\<lparr>loading := False\<rparr>, db)
      else ([], ui\<lparr>menuItems := select_menu_items db,
                    inventoryLogs := select_inventory_logs db,
                    loading := False\<rparr>, db))"

subsection \<open>handleAdjustment\<close>

text \<open>
  \<^verbatim>\<open>from('menu_items').update({ stock_quantity: newStock, is_available: newStock > 0 })
      .eq('id', selectedItem.id)\<close>
\<close>

definition update_stock :: "nat \<Rightarrow> int \<Rightarrow> bool \<Rightarrow> database \<Rightarrow> database" where
  "update_stock i s a db =
     db\<lparr>menu_items :=
          map (\<lambda>r. if item_id r = i then r\<lparr>stock_quantity := s, is_available := a\<rparr> else r)
              (menu_items db)\<rparr>"

text \<open>
  The handler of the dialog's "Update Stock" button. \<^verbatim>\<open>!selectedItem\<close> is the case
  \<open>None\<close>; \<^verbatim>\<open>!adjustmentReason\<close> holds of the empty string only. After a successful
  update the dialog state is reset and \<^verbatim>\<open>fetchData\<close> is started.
\<close>

definition handleAdjustment ::
  "backend \<Rightarrow> database \<Rightarrow> inventory_section \<Rightarrow> toast list \<times> inventory_section \<times> database"
where
  "handleAdjustment be db ui =
     (case selectedItem ui of
        None \<Rightarrow> ([Invalid_Input], ui, db)
      | Some sel \<Rightarrow>
          if adjustmentReason ui = [] then ([Invalid_Input], ui, db)
          else
            let newStock = stock_quantity sel + adjustmentAmount ui in
            if newStock < 0 then ([Invalid_Adjustment], ui, db)
            else if update_error be then ([Failed_To_Update_Stock], ui, db)
            else
              let db' = update_stock (item_id sel) newStock (newStock > 0) db;
                  ui' = ui\<lparr>isDialogOpen := False, selectedItem := None,
                           adjustmentAmount := 0, adjustmentReason := []\<rparr>;
                  (ts, ui'', db'') = fetchData be db' ui'
              in (Stock_Updated (name sel) # ts, ui'', db''))"

text \<open>The parts of a handler's result.\<close>

definition toasts_of :: "toast list \<times> 'u \<times> database \<Rightarrow> toast list" where
  "toasts_of r = fst r"

definition section_of :: "toast list \<times> 'u \<times> database \<Rightarrow> 'u" where
  "section_of r = fst (snd r)"

definition database_of :: "toast list \<times> 'u \<times> database \<Rightarrow> database" where
  "database_of r = snd (snd r)"

text \<open>
  The dialog state when the admin has pressed "Adjust Stock" on \<open>item\<close> and typed an
  amount and a reason: \<^verbatim>\<open>setSelectedItem(item)\<close>, the dialog opened,
  \<^verbatim>\<open>setAdjustmentAmount\<close>, \<^verbatim>\<open>setAdjustmentReason\<close>.
\<close>

definition adjusting :: "menu_item \<Rightarrow> int \<Rightarrow> string \<Rightarrow> inventory_section \<Rightarrow> inventory_section" where
  "adjusting item delta why ui =
     ui\<lparr>selectedItem := Some item, isDialogOpen := True,
        adjustmentAmount := delta, adjustmentReason := why\<rparr>"

subsection \<open>Low-stock detection\<close>

text \<open>\<^verbatim>\<open>menuItems.filter(item => item.stock_quantity <= 10)\<close>\<close>

definition lowStockItems :: "menu_item list \<Rightarrow> menu_item list" where
  "lowStockItems items = filter (\<lambda>item. stock_quantity item \<le> 10) items"

section \<open>The menu screen\<close>

text \<open>
  A JavaScript number as the form holds it: \<^verbatim>\<open>parseInt\<close> and \<^verbatim>\<open>parseFloat\<close> give
  \<^verbatim>\<open>NaN\<close> on an input that is not a number.
\<close>

datatype 'a js_number = NaN | Num 'a

text \<open>
  The \<^verbatim>\<open>formData\<close> object. Its \<^verbatim>\<open>stock_quantity\<close> is only ever assigned 0,
  \<^verbatim>\<open>parseInt(e.target.value)\<close> or the stock of the item being edited, so it is an
  integer or \<^verbatim>\<open>NaN\<close>; its \<^verbatim>\<open>price\<close> is 0, \<^verbatim>\<open>parseFloat(e.target.value)\<close> or
  the price of the item being edited.
\<close>

record form_data =
  form_name :: string
  form_description :: string
  form_price :: "real js_number"
  form_category :: string
  form_stock_quantity :: "int js_number"
  form_image_url :: string

record menu_section =
  formData :: form_data
  editingItem :: "menu_item_row option"
  menuDialogOpen :: bool

definition categories :: "string list" where
  "categories =
     [''breakfast'', ''lunch'', ''dinner'', ''snacks'', ''beverages'', ''desserts'']"

text \<open>
  \<^verbatim>\<open>menuItemSchema.parse(formData)\<close>, field by field in the order of the schema:
  \<^verbatim>\<open>name: z.string().min(2).max(100)\<close>, \<^verbatim>\<open>description: z.string().max(500)\<close>,
  \<^verbatim>\<open>price: z.number().min(0)\<close>, \<^verbatim>\<open>category: z.enum([...])\<close>,
  \<^verbatim>\<open>stock_quantity: z.number().int().min(0)\<close>,
  \<^verbatim>\<open>image_url: z.string().url().optional().or(z.literal(''))\<close>.
  \<^verbatim>\<open>z.number()\<close> rejects \<^verbatim>\<open>NaN\<close>; \<^verbatim>\<open>.int()\<close> holds of every \<open>Num n\<close> with
  \<open>n\<close> an \<open>int\<close>. What makes a string a URL is left to the parameter \<open>is_url\<close>.
  \<open>None\<close> is the thrown \<^verbatim>\<open>ZodError\<close>; on success the result carries the two numbers
  that passed, the price and the stock quantity.
\<close>

definition menuItemSchema_parse :: "(string \<Rightarrow> bool) \<Rightarrow> form_data \<Rightarrow> (real \<times> int) option" where
  "menuItemSchema_parse is_url fd =
     (if \<not> (2 \<le> length (form_name fd) \<and> length (form_name fd) \<le> 100) then None
      else if \<not> (length (form_description fd) \<le> 500) then None
      else (case form_price fd of
              NaN \<Rightarrow> None
            | Num p \<Rightarrow>
                if \<not> (0 \<le> p) then None
                else if form_category fd \<notin> set categories then None
                else (case form_stock_quantity fd of
                        NaN \<Rightarrow> None
                      | Num n \<Rightarrow>
                          if \<not> (0 \<le> n) then None
                          else if \<not> (is_url (form_image_url fd) \<or> form_image_url fd = [])
                          then None
                          else Some (p, n))))"

text \<open>\<^verbatim>\<open>formData.image_url || null\<close>\<close>

definition image_url_or_null :: "string \<Rightarrow> string option" where
  "image_url_or_null u = (if u = [] then None else Some u)"

text \<open>
  \<^verbatim>\<open>from('menu_items').update({name, description, price, category, stock_quantity,
  image_url}).eq('id', editingItem.id)\<close>
\<close>

definition update_menu_item :: "nat \<Rightarrow> form_data \<Rightarrow> real \<Rightarrow> int \<Rightarrow> database \<Rightarrow> database" where
  "update_menu_item i fd p n db =
     db\<lparr>menu_items :=
          map (\<lambda>r. if item_id r = i
                    then r\<lparr>name := form_name fd, description := form_description fd,
                           price := p, category := form_category fd, stock_quantity := n,
                           image_url := image_url_or_null (form_image_url fd)\<rparr>
                    else r)
              (menu_items db)\<rparr>"

text \<open>
  \<^verbatim>\<open>from('menu_items').insert({name, description, price, category, stock_quantity,
  image_url})\<close>; the database assigns the \<^verbatim>\<open>id\<close> and the default of
  \<^verbatim>\<open>is_available\<close>.
\<close>

definition insert_menu_item :: "backend \<Rightarrow> form_data \<Rightarrow> real \<Rightarrow> int \<Rightarrow> database \<Rightarrow> database" where
  "insert_menu_item be fd p n db =
     db\<lparr>menu_items :=
          menu_items db @
          [\<lparr>item_id = generated_id be, name = form_name fd, stock_quantity = n,
            category = form_category fd, description = form_description fd, price = p,
            is_available = default_is_available be,
            image_url = image_url_or_null (form_image_url fd)\<rparr>]\<rparr>"

definition resetForm :: "menu_section \<Rightarrow> menu_section" where
  "resetForm ms =
     ms\<lparr>formData :=
          \<lparr>form_name = [], form_description = [], form_price = Num 0,
           form_category = ''breakfast'', form_stock_quantity = Num 0, form_image_url = []\<rparr>,
        editingItem := None\<rparr>"

text \<open>
  \<^verbatim>\<open>handleSubmit\<close>: validation first; nothing is sent when it throws. The list of
  items the screen shows (\<^verbatim>\<open>fetchMenuItems\<close>) is display only and not modelled.
\<close>

definition handleSubmit ::
  "(string \<Rightarrow> bool) \<Rightarrow> backend \<Rightarrow> database \<Rightarrow> menu_section \<Rightarrow>
     toast list \<times> menu_section \<times> database" where
  "handleSubmit is_url be db ms =
     (case menuItemSchema_parse is_url (formData ms) of
        None \<Rightarrow> ([Validation_Error], ms, db)
      | Some (p, n) \<Rightarrow>
          (case editingItem ms of
             Some it \<Rightarrow>
               if update_error be then ([Failed_To_Save], ms, db)
               else ([Menu_Item_Updated], resetForm (ms\<lparr>menuDialogOpen := False\<rparr>),
                     update_menu_item (item_id it) (formData ms) p n db)
           | None \<Rightarrow>
               if insert_error be then ([Failed_To_Save], ms, db)
               else ([Menu_Item_Added], resetForm (ms\<lparr>menuDialogOpen := False\<rparr>),
                     insert_menu_item be (formData ms) p n db)))"

text \<open>
  \<^verbatim>\<open>handleDelete(id)\<close>; \<open>confirmed\<close> is the answer to the \<^verbatim>\<open>confirm\<close> dialog.
\<close>

definition handleDelete :: "backend \<Rightarrow> database \<Rightarrow> bool \<Rightarrow> nat \<Rightarrow> toast list \<times> database" where
  "handleDelete be db confirmed i =
     (if \<not> confirmed then ([], db)
      else if delete_error be then ([Failed_To_Delete], db)
      else ([Item_Deleted], db\<lparr>menu_items := filter (\<lambda>r. item_id r \<noteq> i) (menu_items db)\<rparr>))"

section \<open>The order screen\<close>

text \<open>
  \<^verbatim>\<open>updateOrderStatus(orderId, newStatus)\<close>:
  \<^verbatim>\<open>from('orders').update({ status: newStatus }).eq('id', orderId)\<close>
\<close>

definition updateOrderStatus :: "backend \<Rightarrow> database \<Rightarrow> nat \<Rightarrow> string \<Rightarrow> toast list \<times> database" where
  "updateOrderStatus be db orderId newStatus =
     (if update_error be then ([Failed_To_Update_Order], db)
      else ([Order_Updated newStatus],
            db\<lparr>orders :=
                 map (\<lambda>r. if order_id r = orderId then r\<lparr>status := newStatus\<rparr> else r)
                     (orders db)\<rparr>))"

section \<open>All write paths\<close>

text \<open>
  The four handlers that send a write to the database, each with the backend's answers
  at that moment and the state of its screen.
\<close>

datatype write_path =
    Adjustment backend inventory_section
  | Submit backend menu_section
  | Delete backend bool nat
  | OrderStatus backend nat string

fun perform :: "(string \<Rightarrow> bool) \<Rightarrow> write_path \<Rightarrow> database \<Rightarrow> database" where
  "perform is_url (Adjustment be ui) db = database_of (handleAdjustment be db ui)"
| "perform is_url (Submit be ms) db = database_of (handleSubmit is_url be db ms)"
| "perform is_url (Delete be confirmed i) db = snd (handleDelete be db confirmed i)"
| "perform is_url (OrderStatus be orderId newStatus) db =
     snd (updateOrderStatus be db orderId newStatus)"

fun perform_all :: "(string \<Rightarrow> bool) \<Rightarrow> write_path list \<Rightarrow> database \<Rightarrow> database" where
  "perform_all is_url [] db = db"
| "perform_all is_url (w # ws) db = perform_all is_url ws (perform is_url w db)"

text \<open>The invariant of the data model: no menu item has a negative stock quantity.\<close>

definition stock_never_negative :: "database \<Rightarrow> bool" where
  "stock_never_negative db = list_all (\<lambda>r. 0 \<le> stock_quantity r) (menu_items db)"

section \<open>Outcomes and a small canteen\<close>

text \<open>
  An adjustment has succeeded when the handler shows the 'Stock Updated' toast, which it
  does right after the update came back without an error.
\<close>

definition adjustment_succeeded :: "toast list \<times> inventory_section \<times> database \<Rightarrow> bool" where
  "adjustment_succeeded r =
     (case toasts_of r of Stock_Updated n # ts \<Rightarrow> True | _ \<Rightarrow> False)"

text \<open>A database with two items and two ledger entries, used for the concrete runs.\<close>

definition chai :: menu_item_row where
  "chai =
     \<lparr>item_id = 1, name = ''Chai'', stock_quantity = 10, category = ''beverages'',
      description = ''Spiced tea'', price = 2, is_available = True, image_url = None\<rparr>"

definition samosa :: menu_item_row where
  "samosa =
     \<lparr>item_id = 2, name = ''Samosa'', stock_quantity = 25, category = ''snacks'',
      description = ''Fried pastry'', price = 3 / 2, is_available = True, image_url = None\<rparr>"

definition delivery :: inventory_log where
  "delivery =
     \<lparr>log_id = 1, menu_item_id = 2, change_amount = 25, previous_stock = 0, new_stock = 25,
      reason = ''Delivery'', created_at = 100\<rparr>"

definition spill :: inventory_log where
  "spill =
     \<lparr>log_id = 2, menu_item_id = 1, change_amount = - 2, previous_stock = 12, new_stock = 10,
      reason = ''Spilled'', created_at = 200\<rparr>"

definition canteen :: database where
  "canteen = \<lparr>menu_items = [chai, samosa], inventory_logs = [delivery, spill], orders = []\<rparr>"

text \<open>A backend that answers every request without an error.\<close>

definition healthy :: backend where
  "healthy =
     \<lparr>update_error = False, items_error = False, logs_error = False, insert_error = False,
      delete_error = False, generated_id = 3, default_is_available = True\<rparr>"

text \<open>The initial values of the \<^verbatim>\<open>useState\<close> cells of the inventory screen.\<close>

definition initial_section :: inventory_section where
  "initial_section =
     \<lparr>menuItems = [], inventoryLogs = [], loading = True, selectedItem = None,
      adjustmentAmount = 0, adjustmentReason = [], isDialogOpen = False\<rparr>"

text \<open>
  The menu form filled in for a new item with a given stock quantity, and a sequence of
  writes: Chai is sold out, a further sale from the same snapshot and a new item with a
  negative stock are attempted, a new item with 12 in stock is added, Samosa is deleted.
\<close>

definition mandazi_form :: "int \<Rightarrow> menu_section" where
  "mandazi_form n =
     \<lparr>formData =
        \<lparr>form_name = ''Mandazi'', form_description = [], form_price = Num 1,
         form_category = ''snacks'', form_stock_quantity = Num n, form_image_url = []\<rparr>,
      editingItem = None, menuDialogOpen = True\<rparr>"

definition busy_day :: "write_path list" where
  "busy_day =
     [Adjustment healthy (adjusting (snapshot chai) (- 10) ''Sold'' initial_section),
      Adjustment healthy (adjusting (snapshot chai) (- 11) ''Sold'' initial_section),
      Submit healthy (mandazi_form (- 4)),
      Submit healthy (mandazi_form 12),
      Delete healthy True 2]"

text \<open>A snapshot with a given stock, for the low-stock example.\<close>

definition with_stock :: "int \<Rightarrow> menu_item" where
  "with_stock n = \<lparr>item_id = 0, name = ''Item'', stock_quantity = n, category = ''lunch''\<rparr>"

section \<open>Facts about the adjustment handler\<close>

lemmas run_defs =
  handleAdjustment_def healthy_def canteen_def adjusting_def snapshot_def chai_def samosa_def
  initial_section_def update_stock_def fetchData_def toasts_of_def database_of_def
  section_of_def Let_def

text \<open>The handler writes exactly when all three guards pass and the update is accepted.\<close>

lemma adjustment_succeeded_iff:
  "adjustment_succeeded (handleAdjustment be db ui) \<longleftrightarrow>
     (\<exists>item. selectedItem ui = Some item \<and> adjustmentReason ui \<noteq> [] \<and>
        0 \<le> stock_quantity item + adjustmentAmount ui \<and> \<not> update_error be)"
  by (auto simp: handleAdjustment_def fetchData_def adjustment_succeeded_def toasts_of_def
        Let_def split: option.splits)

lemma handleAdjustment_accepts:
  assumes "selectedItem ui = Some item" and "adjustmentReason ui \<noteq> []"
    and "0 \<le> stock_quantity item + adjustmentAmount ui" and "\<not> update_error be"
  shows "database_of (handleAdjustment be db ui) =
           update_stock (item_id item) (stock_quantity item + adjustmentAmount ui)
             (0 < stock_quantity item + adjustmentAmount ui) db"
  using assms
  by (simp add: handleAdjustment_def fetchData_def database_of_def Let_def)

lemma handleAdjustment_rejects:
  "\<not> adjustment_succeeded (handleAdjustment be db ui) \<Longrightarrow>
     database_of (handleAdjustment be db ui) = db \<and> section_of (handleAdjustment be db ui) = ui"
  by (auto simp: handleAdjustment_def fetchData_def adjustment_succeeded_def toasts_of_def
        database_of_def section_of_def Let_def split: option.splits if_splits)

lemma update_stock_length:
  "length (menu_items (update_stock i s a db)) = length (menu_items db)"
  by (simp add: update_stock_def)

lemma update_stock_nth:
  "k < length (menu_items db) \<Longrightarrow>
   menu_items (update_stock i s a db) ! k =
     (if item_id (menu_items db ! k) = i
      then (menu_items db ! k)\<lparr>stock_quantity := s, is_available := a\<rparr>
      else menu_items db ! k)"
  by (simp add: update_stock_def)

lemma update_stock_item_id:
  "k < length (menu_items db) \<Longrightarrow>
   item_id (menu_items (update_stock i s a db) ! k) = item_id (menu_items db ! k)"
  by (simp add: update_stock_nth)

lemma update_stock_keeps_invariant:
  "0 \<le> s \<Longrightarrow> stock_never_negative db \<Longrightarrow> stock_never_negative (update_stock i s a db)"
  by (auto simp: stock_never_negative_def update_stock_def list_all_iff)

lemma handleAdjustment_keeps_invariant:
  assumes "stock_never_negative db"
  shows "stock_never_negative (database_of (handleAdjustment be db ui))"
proof (cases "adjustment_succeeded (handleAdjustment be db ui)")
  case True
  then obtain item where ok: "selectedItem ui = Some item" "adjustmentReason ui \<noteq> []"
      "0 \<le> stock_quantity item + adjustmentAmount ui" "\<not> update_error be"
    by (auto simp: adjustment_succeeded_iff)
  show ?thesis
    by (simp add: handleAdjustment_accepts [OF ok] update_stock_keeps_invariant ok(3) assms)
next
  case False
  then show ?thesis by (simp add: handleAdjustment_rejects assms)
qed

section \<open>Facts about the menu and order handlers\<close>

text \<open>A form that passes the schema carries a stock quantity that is a number and not negative.\<close>

lemma menuItemSchema_parse_stock:
  "menuItemSchema_parse is_url fd = Some (p, n) \<Longrightarrow> 0 \<le> n \<and> form_stock_quantity fd = Num n"
  by (auto simp: menuItemSchema_parse_def split: if_splits js_number.splits)

lemma handleSubmit_keeps_invariant:
  assumes "stock_never_negative db"
  shows "stock_never_negative (database_of (handleSubmit is_url be db ms))"
proof (cases "menuItemSchema_parse is_url (formData ms)")
  case None
  then show ?thesis by (simp add: handleSubmit_def database_of_def assms)
next
  case (Some pn)
  obtain p n where pn: "pn = (p, n)" by (cases pn)
  with Some have "0 \<le> n" using menuItemSchema_parse_stock by blast
  with assms Some pn show ?thesis
    by (auto simp: handleSubmit_def database_of_def stock_never_negative_def list_all_iff
          update_menu_item_def insert_menu_item_def split: option.splits)
qed

lemma handleDelete_keeps_invariant:
  "stock_never_negative db \<Longrightarrow> stock_never_negative (snd (handleDelete be db confirmed i))"
  by (auto simp: handleDelete_def stock_never_negative_def list_all_iff)

lemma updateOrderStatus_keeps_invariant:
  "stock_never_negative db \<Longrightarrow> stock_never_negative (snd (updateOrderStatus be db i s))"
  by (auto simp: updateOrderStatus_def stock_never_negative_def)

lemma perform_keeps_invariant:
  "stock_never_negative db \<Longrightarrow> stock_never_negative (perform is_url w db)"
  by (cases w)
     (simp_all add: handleAdjustment_keeps_invariant handleSubmit_keeps_invariant
        handleDelete_keeps_invariant updateOrderStatus_keeps_invariant)

lemma perform_all_keeps_invariant:
  "stock_never_negative db \<Longrightarrow> stock_never_negative (perform_all is_url ws db)"
  by (induction ws arbitrary: db) (simp_all add: perform_keeps_invariant)

lemma handleSubmit_invalid:
  "menuItemSchema_parse is_url (formData ms) = None \<Longrightarrow>
     database_of (handleSubmit is_url be db ms) = db"
  by (simp add: handleSubmit_def database_of_def)

section \<open>Facts about the ledger query\<close>










section \<open>The claims\<close>

text \<open>
  C1. The claim: every adjustment with a non-empty reason and a non-negative resulting
  stock succeeds, persists the new stock and appends exactly one ledger entry recording
  the previous stock, the new stock, the change and the reason.

  The handler never writes to \<^verbatim>\<open>inventory_logs\<close>: the reason it insists on is compared
  with the empty string and then dropped. Restocking Chai (stock 10) by 5 with the reason
  'Restocking' shows 'Stock Updated' and stores 15, and the ledger afterwards holds the
  same two entries as before, none of them with the reason 'Restocking'.
\<close>

theorem restocking_appends_no_ledger_entry:
  "toasts_of (handleAdjustment healthy canteen
      (adjusting (snapshot chai) 5 ''Restocking'' initial_section)) = [Stock_Updated ''Chai'']
   \<and> map stock_quantity (menu_items (database_of (handleAdjustment healthy canteen
      (adjusting (snapshot chai) 5 ''Restocking'' initial_section)))) = [15, 25]
   \<and> inventory_logs (database_of (handleAdjustment healthy canteen
      (adjusting (snapshot chai) 5 ''Restocking'' initial_section))) = [delivery, spill]
   \<and> map reason [delivery, spill] = [''Delivery'', ''Spilled'']"
  by (simp add: run_defs delivery_def spill_def)

text \<open>
  C2. Whenever a reason is given and the stock plus the delta is negative, the adjustment
  fails with NegativeStock ('Invalid Adjustment'), whatever the item, the delta, the
  database and the backend: no ledger entry is written, the stock is unchanged, and the
  database and the dialog are exactly as before. (Without a reason the reason check,
  which runs first, answers instead; that case is C6.)
\<close>

theorem negative_stock_is_rejected:
  assumes "selectedItem ui = Some item"
    and "adjustmentReason ui \<noteq> []"
    and "stock_quantity item + adjustmentAmount ui < 0"
  shows "toasts_of (handleAdjustment be db ui) = [Invalid_Adjustment]
         \<and> inventory_logs (database_of (handleAdjustment be db ui)) = inventory_logs db
         \<and> menu_items (database_of (handleAdjustment be db ui)) = menu_items db
         \<and> database_of (handleAdjustment be db ui) = db
         \<and> section_of (handleAdjustment be db ui) = ui"
  using assms
  by (simp add: handleAdjustment_def toasts_of_def database_of_def section_of_def Let_def)

theorem negative_stock_is_rejected_witness:
  "selectedItem (adjusting (snapshot chai) (- 15) ''Damaged goods'' initial_section)
     = Some (snapshot chai)
   \<and> adjustmentReason (adjusting (snapshot chai) (- 15) ''Damaged goods'' initial_section) \<noteq> []
   \<and> stock_quantity (snapshot chai)
       + adjustmentAmount (adjusting (snapshot chai) (- 15) ''Damaged goods'' initial_section) < 0
   \<and> toasts_of (handleAdjustment healthy canteen
        (adjusting (snapshot chai) (- 15) ''Damaged goods'' initial_section))
       = [Invalid_Adjustment]
   \<and> database_of (handleAdjustment healthy canteen
        (adjusting (snapshot chai) (- 15) ''Damaged goods'' initial_section)) = canteen"
  using negative_stock_is_rejected
    [of "adjusting (snapshot chai) (- 15) ''Damaged goods'' initial_section" "snapshot chai"
        healthy canteen]
  by (simp add: adjusting_def snapshot_def chai_def initial_section_def)

text \<open>
  C3. The claim: an empty or whitespace-only reason fails with MissingReason
  ('Invalid Input') and has no side effect.

  The handler tests \<^verbatim>\<open>!adjustmentReason\<close> and never trims: a reason of two blanks is
  accepted, and restocking Chai by 5 with it stores 15 where 10 was.
\<close>

theorem blank_reason_is_accepted:
  "toasts_of (handleAdjustment healthy canteen
      (adjusting (snapshot chai) 5 ''  '' initial_section)) = [Stock_Updated ''Chai'']
   \<and> map stock_quantity (menu_items canteen) = [10, 25]
   \<and> map stock_quantity (menu_items (database_of (handleAdjustment healthy canteen
      (adjusting (snapshot chai) 5 ''  '' initial_section)))) = [15, 25]"
  by (simp add: run_defs)

text \<open>
  C3, amended: an empty reason fails with 'Invalid Input' and has no side effect: the
  database (stock and ledger) and the dialog are exactly as before.
\<close>

theorem empty_reason_is_rejected:
  assumes "adjustmentReason ui = []"
  shows "toasts_of (handleAdjustment be db ui) = [Invalid_Input]
         \<and> database_of (handleAdjustment be db ui) = db
         \<and> section_of (handleAdjustment be db ui) = ui"
  using assms
  by (simp add: handleAdjustment_def toasts_of_def database_of_def section_of_def Let_def
      split: option.splits)

theorem empty_reason_is_rejected_witness:
  "adjustmentReason (adjusting (snapshot chai) 5 [] initial_section) = []
   \<and> toasts_of (handleAdjustment healthy canteen
        (adjusting (snapshot chai) 5 [] initial_section)) = [Invalid_Input]
   \<and> database_of (handleAdjustment healthy canteen
        (adjusting (snapshot chai) 5 [] initial_section)) = canteen"
  using empty_reason_is_rejected
    [of "adjusting (snapshot chai) 5 [] initial_section" healthy canteen]
  by (simp add: adjusting_def)

text \<open>
  C4. No menu item ever has a negative stock quantity: each of the write paths of the
  program (the stock adjustment, the creation or editing of a menu item, the deletion of
  a menu item, the change of an order's status) takes a database without negative stock
  to one without negative stock, whatever the screens hold and whatever the backend
  answers; so does any sequence of them. The adjustment refuses a negative result, and the
  menu form is validated before anything is sent: a form the schema rejects leaves the
  database as it was, and a form it accepts carries a stock quantity that is a number
  and not negative.
\<close>

theorem stock_never_negative_after_writes:
  "(stock_never_negative db \<longrightarrow> stock_never_negative (perform_all is_url ws db))
   \<and> (menuItemSchema_parse is_url (formData ms) = None \<longrightarrow>
        database_of (handleSubmit is_url be db ms) = db)
   \<and> (\<forall>p n. menuItemSchema_parse is_url (formData ms) = Some (p, n) \<longrightarrow>
        form_stock_quantity (formData ms) = Num n \<and> 0 \<le> n)"
  using perform_all_keeps_invariant [of db is_url ws] handleSubmit_invalid [of is_url ms be db]
    menuItemSchema_parse_stock [of is_url "formData ms"]
  by blast

theorem stock_never_negative_after_writes_witness:
  "stock_never_negative canteen
   \<and> stock_never_negative (perform_all (\<lambda>u. False) busy_day canteen)
   \<and> map stock_quantity (menu_items (perform_all (\<lambda>u. False) busy_day canteen)) = [0, 12]
   \<and> menuItemSchema_parse (\<lambda>u. False) (formData (mandazi_form (- 4))) = None
   \<and> database_of (handleSubmit (\<lambda>u. False) healthy canteen (mandazi_form (- 4))) = canteen
   \<and> menuItemSchema_parse (\<lambda>u. False) (formData (mandazi_form 12)) = Some (1, 12)"
  using stock_never_negative_after_writes
      [of canteen "\<lambda>u. False" busy_day "mandazi_form (- 4)" healthy]
    stock_never_negative_after_writes
      [of canteen "\<lambda>u. False" busy_day "mandazi_form 12" healthy]
  by (simp add: stock_never_negative_def busy_day_def mandazi_form_def run_defs
        handleSubmit_def menuItemSchema_parse_def categories_def insert_menu_item_def
        handleDelete_def resetForm_def image_url_or_null_def)

text \<open>
  C5. After every successful stock adjustment the stored row of the selected item holds
  the stock the adjustment computed, \<open>stock_quantity item + adjustmentAmount\<close>, and its
  \<open>is_available\<close> flag is true exactly when that stock is greater than zero.
\<close>

theorem availability_follows_new_stock:
  assumes "selectedItem ui = Some item"
    and "adjustment_succeeded (handleAdjustment be db ui)"
    and "k < length (menu_items db)"
    and "item_id (menu_items db ! k) = item_id item"
  shows "stock_quantity (menu_items (database_of (handleAdjustment be db ui)) ! k)
           = stock_quantity item + adjustmentAmount ui
       \<and> is_available (menu_items (database_of (handleAdjustment be db ui)) ! k)
           = (0 < stock_quantity item + adjustmentAmount ui)
       \<and> is_available (menu_items (database_of (handleAdjustment be db ui)) ! k)
           = (0 < stock_quantity (menu_items (database_of (handleAdjustment be db ui)) ! k))"
proof -
  from assms(1,2) have ok: "adjustmentReason ui \<noteq> []"
    "0 \<le> stock_quantity item + adjustmentAmount ui" "\<not> update_error be"
    by (auto simp: adjustment_succeeded_iff)
  show ?thesis
    by (simp add: handleAdjustment_accepts [OF assms(1) ok] update_stock_nth assms(3,4))
qed

theorem availability_follows_new_stock_witness:
  "selectedItem (adjusting (snapshot chai) (- 10) ''Sold out'' initial_section)
     = Some (snapshot chai)
   \<and> adjustment_succeeded (handleAdjustment healthy canteen
        (adjusting (snapshot chai) (- 10) ''Sold out'' initial_section))
   \<and> 0 < length (menu_items canteen)
   \<and> item_id (menu_items canteen ! 0) = item_id (snapshot chai)
   \<and> stock_quantity (menu_items (database_of (handleAdjustment healthy canteen
        (adjusting (snapshot chai) (- 10) ''Sold out'' initial_section))) ! 0) = 0
   \<and> \<not> is_available (menu_items (database_of (handleAdjustment healthy canteen
        (adjusting (snapshot chai) (- 10) ''Sold out'' initial_section))) ! 0)"
  using availability_follows_new_stock
    [of "adjusting (snapshot chai) (- 10) ''Sold out'' initial_section" "snapshot chai"
        healthy canteen 0]
  by (simp add: run_defs adjustment_succeeded_def)

text \<open>
  C6. The claim: the checks run in a fixed order and the first failure wins, so that an
  adjustment that lacks a reason and would also make the stock negative is answered with
  MissingReason ('Invalid Input'), and the negative-stock check is reached only when a
  reason is present.

  A reason of blanks only lacks a reason once trimmed, but the handler never trims:
  taking 15 from Chai (stock 10) with a reason of two blanks passes the reason check and
  is answered by the negative-stock check with 'Invalid Adjustment'.
\<close>

theorem blank_reason_reaches_stock_check:
  "set ''  '' = {CHR '' ''}
   \<and> stock_quantity (snapshot chai) + (- 15) < 0
   \<and> toasts_of (handleAdjustment healthy canteen
        (adjusting (snapshot chai) (- 15) ''  '' initial_section)) = [Invalid_Adjustment]"
  by (simp add: run_defs)

text \<open>
  C6, amended: the checks run in a fixed order and the first failure wins: an adjustment
  whose reason is the empty string and that would also make the stock negative is
  answered with 'Invalid Input' (the reason check), and 'Invalid Adjustment' (the
  negative-stock check) is only ever shown when the reason is not the empty string.
\<close>

theorem reason_is_checked_first:
  "(selectedItem ui = Some item \<and> adjustmentReason ui = [] \<and>
      stock_quantity item + adjustmentAmount ui < 0 \<longrightarrow>
      toasts_of (handleAdjustment be db ui) = [Invalid_Input])
   \<and> (toasts_of (handleAdjustment be db ui) = [Invalid_Adjustment] \<longrightarrow>
        adjustmentReason ui \<noteq> [])"
  by (auto simp: handleAdjustment_def fetchData_def toasts_of_def Let_def
        split: option.splits if_splits)

theorem reason_is_checked_first_witness:
  "(selectedItem (adjusting (snapshot chai) (- 15) [] initial_section) = Some (snapshot chai)
      \<and> adjustmentReason (adjusting (snapshot chai) (- 15) [] initial_section) = []
      \<and> stock_quantity (snapshot chai)
          + adjustmentAmount (adjusting (snapshot chai) (- 15) [] initial_section) < 0
      \<and> toasts_of (handleAdjustment healthy canteen
           (adjusting (snapshot chai) (- 15) [] initial_section)) = [Invalid_Input])
   \<and> (toasts_of (handleAdjustment healthy canteen
           (adjusting (snapshot chai) (- 15) ''Damaged goods'' initial_section))
         = [Invalid_Adjustment]
      \<and> adjustmentReason (adjusting (snapshot chai) (- 15) ''Damaged goods'' initial_section)
         \<noteq> [])"
  using reason_is_checked_first
      [of "adjusting (snapshot chai) (- 15) [] initial_section" "snapshot chai" healthy canteen]
    reason_is_checked_first
      [of "adjusting (snapshot chai) (- 15) ''Damaged goods'' initial_section" "snapshot chai"
          healthy canteen]
  by (simp add: run_defs)

text \<open>
  C7. Low-stock detection returns exactly the items whose stock is at most 10, an item
  with stock exactly 10 included, in the order of the input and as often as they occur
  there; it is a function of the list alone. On stocks 3, 15, 10, 0 it returns the items
  with stocks 3, 10, 0.
\<close>

theorem lowStockItems_exact:
  "subseq (lowStockItems items) items
   \<and> mset (lowStockItems items) = filter_mset (\<lambda>item. stock_quantity item \<le> 10) (mset items)
   \<and> (\<forall>item \<in> set items. item \<in> set (lowStockItems items) \<longleftrightarrow> stock_quantity item \<le> 10)
   \<and> map stock_quantity (lowStockItems (map with_stock [3, 15, 10, 0])) = [3, 10, 0]"
  by (simp add: lowStockItems_def with_stock_def)

theorem lowStockItems_exact_witness:
  "with_stock 10 \<in> set (map with_stock [3, 15, 10, 0])
   \<and> with_stock 10 \<in> set (lowStockItems (map with_stock [3, 15, 10, 0]))
   \<and> with_stock 15 \<in> set (map with_stock [3, 15, 10, 0])
   \<and> with_stock 15 \<notin> set (lowStockItems (map with_stock [3, 15, 10, 0]))"
  using lowStockItems_exact [of "map with_stock [3, 15, 10, 0]"]
  by (simp add: with_stock_def)



text \<open>
  C9. The claim: the stored stock is updated relative to the value currently stored, so
  that adjustments of -5 and -3 made by two admins against a stock of 10 leave 2.

  The handler sends the number it computed from the snapshot it selected. Two admins
  who both loaded Chai with stock 10 and adjust by -5 and then by -3 leave a stock of 7.
\<close>

theorem stale_adjustment_overwrites:
  "map stock_quantity (menu_items canteen) = [10, 25] \<and>
   map stock_quantity (menu_items
     (database_of (handleAdjustment healthy
        (database_of (handleAdjustment healthy canteen
           (adjusting (snapshot chai) (- 5) ''Spoiled'' initial_section)))
        (adjusting (snapshot chai) (- 3) ''Damaged goods'' initial_section)))) = [7, 25]"
  by (simp add: run_defs)

text \<open>
  C9, amended: the stored stock is overwritten with the number the client computed from
  its own snapshot, \<open>stock_quantity item + adjustmentAmount\<close>, whatever is stored at
  that moment: after two successful adjustments of the same item the stored stock is the
  one the second adjustment computed, independent of the first adjustment and of the
  stock stored before.
\<close>

theorem last_adjustment_wins:
  assumes "selectedItem ui2 = Some item"
    and "adjustment_succeeded (handleAdjustment be1 db ui1)"
    and "adjustment_succeeded
           (handleAdjustment be2 (database_of (handleAdjustment be1 db ui1)) ui2)"
    and "k < length (menu_items db)"
    and "item_id (menu_items db ! k) = item_id item"
  shows "stock_quantity
           (menu_items (database_of
              (handleAdjustment be2 (database_of (handleAdjustment be1 db ui1)) ui2)) ! k)
         = stock_quantity item + adjustmentAmount ui2"
proof -
  let ?db1 = "database_of (handleAdjustment be1 db ui1)"
  from assms(2) obtain item1 where ok1: "selectedItem ui1 = Some item1"
      "adjustmentReason ui1 \<noteq> []" "0 \<le> stock_quantity item1 + adjustmentAmount ui1"
      "\<not> update_error be1"
    by (auto simp: adjustment_succeeded_iff)
  from assms(1,3) have ok2: "adjustmentReason ui2 \<noteq> []"
      "0 \<le> stock_quantity item + adjustmentAmount ui2" "\<not> update_error be2"
    by (auto simp: adjustment_succeeded_iff)
  have len: "k < length (menu_items ?db1)"
    by (simp add: handleAdjustment_accepts [OF ok1] update_stock_length assms(4))
  have same: "item_id (menu_items ?db1 ! k) = item_id item"
    by (simp add: handleAdjustment_accepts [OF ok1] update_stock_item_id assms(4,5))
  show ?thesis
    by (simp add: handleAdjustment_accepts [OF assms(1) ok2] update_stock_nth len same)
qed

theorem last_adjustment_wins_witness:
  "selectedItem (adjusting (snapshot chai) (- 5) ''Spoiled'' initial_section)
     = Some (snapshot chai)
   \<and> adjustment_succeeded (handleAdjustment healthy canteen
        (adjusting (snapshot chai) (- 3) ''Damaged goods'' initial_section))
   \<and> adjustment_succeeded (handleAdjustment healthy
        (database_of (handleAdjustment healthy canteen
           (adjusting (snapshot chai) (- 3) ''Damaged goods'' initial_section)))
        (adjusting (snapshot chai) (- 5) ''Spoiled'' initial_section))
   \<and> 0 < length (menu_items canteen)
   \<and> item_id (menu_items canteen ! 0) = item_id (snapshot chai)
   \<and> stock_quantity (menu_items (database_of (handleAdjustment healthy
        (database_of (handleAdjustment healthy canteen
           (adjusting (snapshot chai) (- 3) ''Damaged goods'' initial_section)))
        (adjusting (snapshot chai) (- 5) ''Spoiled'' initial_section))) ! 0) = 5"
  using last_adjustment_wins
    [of "adjusting (snapshot chai) (- 5) ''Spoiled'' initial_section" "snapshot chai"
        healthy canteen "adjusting (snapshot chai) (- 3) ''Damaged goods'' initial_section"
        healthy 0]
  by (simp add: run_defs adjustment_succeeded_def)

text \<open>
  C10. A successful stock adjustment changes nothing but the \<open>stock_quantity\<close> and
  \<open>is_available\<close> fields of the row whose id is the selected item's: the table keeps its
  rows in place, a row with another id is unchanged, a row with that id is unchanged in
  every other field (id, name, category, price, description, image), with ids that are
  unique at most one row differs, and the ledger and the orders are unchanged.
\<close>

theorem adjustment_frame:
  assumes "selectedItem ui = Some item"
    and "adjustment_succeeded (handleAdjustment be db ui)"
  shows "length (menu_items (database_of (handleAdjustment be db ui))) = length (menu_items db)
     \<and> (\<forall>k < length (menu_items db).
          let old = menu_items db ! k;
              new = menu_items (database_of (handleAdjustment be db ui)) ! k
          in (item_id old \<noteq> item_id item \<longrightarrow> new = old) \<and>
             new\<lparr>stock_quantity := stock_quantity old, is_available := is_available old\<rparr> = old)
     \<and> (distinct (map item_id (menu_items db)) \<longrightarrow>
          (\<forall>j < length (menu_items db). \<forall>k < length (menu_items db).
             menu_items (database_of (handleAdjustment be db ui)) ! j \<noteq> menu_items db ! j \<and>
             menu_items (database_of (handleAdjustment be db ui)) ! k \<noteq> menu_items db ! k
             \<longrightarrow> j = k))
     \<and> inventory_logs (database_of (handleAdjustment be db ui)) = inventory_logs db
     \<and> orders (database_of (handleAdjustment be db ui)) = orders db"
proof -
  from assms have ok: "adjustmentReason ui \<noteq> []"
    "0 \<le> stock_quantity item + adjustmentAmount ui" "\<not> update_error be"
    by (auto simp: adjustment_succeeded_iff)
  note db' = handleAdjustment_accepts [OF assms(1) ok]
  have changed: "item_id (menu_items db ! k) = item_id item"
    if "k < length (menu_items db)"
      and "menu_items (database_of (handleAdjustment be db ui)) ! k \<noteq> menu_items db ! k" for k
    using that by (simp add: db' update_stock_nth split: if_splits)
  have single: "j = k"
    if "distinct (map item_id (menu_items db))"
      and "j < length (menu_items db)" and "k < length (menu_items db)"
      and "menu_items (database_of (handleAdjustment be db ui)) ! j \<noteq> menu_items db ! j"
      and "menu_items (database_of (handleAdjustment be db ui)) ! k \<noteq> menu_items db ! k"
    for j k
  proof -
    have "map item_id (menu_items db) ! j = map item_id (menu_items db) ! k"
      using changed that by simp
    with that(1-3) show ?thesis by (metis length_map nth_eq_iff_index_eq)
  qed
  show ?thesis
    apply (intro conjI allI impI)
    subgoal by (simp add: db' update_stock_length)
    subgoal for k by (simp add: db' update_stock_nth Let_def)
    subgoal for j k using single by blast
    subgoal by (simp add: db' update_stock_def)
    subgoal by (simp add: db' update_stock_def)
    done
qed

theorem adjustment_frame_witness:
  "selectedItem (adjusting (snapshot chai) 5 ''Restocking'' initial_section)
     = Some (snapshot chai)
   \<and> adjustment_succeeded (handleAdjustment healthy canteen
        (adjusting (snapshot chai) 5 ''Restocking'' initial_section))
   \<and> distinct (map item_id (menu_items canteen))
   \<and> menu_items (database_of (handleAdjustment healthy canteen
        (adjusting (snapshot chai) 5 ''Restocking'' initial_section)))
       = [chai\<lparr>stock_quantity := 15\<rparr>, samosa]"
  using adjustment_frame
    [of "adjusting (snapshot chai) 5 ''Restocking'' initial_section" "snapshot chai"
        healthy canteen]
  by (simp add: run_defs adjustment_succeeded_def)

end
